theory Spec2Isabelle
  imports Main
begin

section \<open>The containerd builder of nodeup (nodeup/pkg/model/containerd.go)\<close>

subsection \<open>Data declared outside the file\<close>

text \<open>
  Modelled from the spec: \<open>distros.Distribution\<close> is declared in the package
  \<open>nodeup/pkg/distros\<close>, outside containerd.go. The spec speaks of
  "a target operating-system distribution"; the constructors are the distribution constants
  that containerd.go names, and \<open>DistributionOther\<close> stands for any distribution
  that containerd.go does not name. The named constants are taken to be pairwise different.
\<close>

datatype Distribution =
    DistributionDebian9
  | DistributionDebian10
  | DistributionXenial
  | DistributionBionic
  | DistributionFocal
  | DistributionAmazonLinux2
  | DistributionRhel7
  | DistributionCentos7
  | DistributionRhel8
  | DistributionCentos8
  | DistributionFlatcar
  | DistributionContainerOS
  | DistributionOther string

text \<open>
  Modelled from the spec: \<open>Architecture\<close> ("CPU architecture") is declared elsewhere in
  the package \<open>model\<close>; containerd.go names \<open>ArchitectureAmd64\<close> only.
\<close>

datatype Architecture =
    ArchitectureAmd64
  | ArchitectureOther string

text \<open>
  Modelled from the spec: the struct \<open>packageVersion\<close> is declared elsewhere in the
  package \<open>model\<close>. The fields are the ones containerd.go reads or writes, with the
  types its uses force: \<open>ExtraPackages\<close> is ranged over with a string key and a
  value that has \<open>Version\<close>, \<open>Source\<close> and \<open>Hash\<close> (a Go map; the association list
  holds its entries in the order the \<open>range\<close> loop visits them, which Go leaves
  unspecified), \<open>MarkImmutable\<close> and \<open>Dependencies\<close> are slices of strings. A field
  that a catalog literal leaves out has Go's zero value.
\<close>

record packageInfo =
  pi_Version :: string
  pi_Source :: string
  pi_Hash :: string

record packageVersion =
  PackageVersion :: string
  Name :: string
  Distros :: "Distribution list"
  Architectures :: "Architecture list"
  Version :: string
  Source :: string
  Hash :: string
  PlainBinary :: bool
  ExtraPackages :: "(string \<times> packageInfo) list"
  MarkImmutable :: "string list"
  Dependencies :: "string list"

text \<open>
  Modelled from the spec: the method \<open>packageVersion.matches\<close> is called by
  \<open>Build\<close> but defined outside containerd.go. Section 4.1 of the spec: "a record is a
  candidate iff requestedVersion equals the record's requestedVersionTag AND
  (distributionConstraint is empty OR contains distribution) AND (architectureConstraint is
  empty OR contains architecture)". The argument order is the one of the call
  \<open>dv.matches(b.Architecture, containerdVersion, b.Distribution)\<close>.
\<close>

definition matches :: "packageVersion \<Rightarrow> Architecture \<Rightarrow> string \<Rightarrow> Distribution \<Rightarrow> bool" where
  "matches dv arch packageVersion distro =
     (PackageVersion dv = packageVersion
      \<and> (Distros dv = [] \<or> distro \<in> set (Distros dv))
      \<and> (Architectures dv = [] \<or> arch \<in> set (Architectures dv)))"

subsection \<open>The cluster specification and the builder\<close>

text \<open>
  \<open>kops.ContainerdConfig\<close>, with the three fields containerd.go reads
  (\<open>Version_opt\<close> is its field \<open>Version\<close>; the name \<open>Version\<close> is the one of
  the catalog records). A Go \<open>*string\<close> is a \<open>string option\<close>;
  \<open>fi.StringValue\<close> reads it, giving the empty string for nil.
\<close>

record ContainerdConfig =
  ConfigOverride :: "string option"
  SkipInstall :: bool
  Version_opt :: "string option"

definition StringValue :: "string option \<Rightarrow> string" where
  "StringValue p = (case p of None \<Rightarrow> [] | Some v \<Rightarrow> v)"

text \<open>The zero value of the struct, which \<open>buildSysconfig\<close> uses when the section is nil.\<close>

definition ContainerdConfig_zero :: ContainerdConfig where
  "ContainerdConfig_zero = \<lparr>ConfigOverride = None, SkipInstall = False, Version_opt = None\<rparr>"

text \<open>
  \<open>b.Cluster.Spec\<close>: the optional containerd section, the networking section (its type
  \<open>'n\<close> is declared outside the file and only handed to \<open>components.UsesKubenet\<close>) and
  the container runtime.
\<close>

record 'n ClusterSpec =
  Containerd :: "ContainerdConfig option"
  Networking :: 'n
  ContainerRuntime :: string

text \<open>
  The builder embeds \<open>*NodeupModelContext\<close>; containerd.go reads its cluster
  specification (\<open>Spec b\<close> is \<open>b.Cluster.Spec\<close>), its distribution and its
  architecture. The pointers \<open>b.Cluster\<close> and the embedded context are taken to be
  non-nil.
\<close>

record 'n ContainerdBuilder =
  Spec :: "'n ClusterSpec"
  Distribution :: Distribution
  Architecture :: Architecture

subsection \<open>Tasks\<close>

text \<open>
  The task structs of \<open>nodetasks\<close>, with the fields containerd.go sets; a field it
  leaves out has the zero value. \<open>FileType_File\<close> is the only file type it uses.
  The fields \<open>Name\<close>, \<open>Source\<close> and \<open>Hash\<close> of an archive, a package and a
  service carry a prefix, since the catalog records have fields of these names.
\<close>

datatype FileType = FileType_File

record File =
  AfterFiles :: "string list"
  Path :: string
  Contents :: string
  Type :: FileType
  OnChangeExecute :: "string list list"

record Archive =
  ar_Name :: string
  ar_Source :: string
  ar_Hash :: string
  TargetDir :: string
  MapFiles :: "(string \<times> string) list"

text \<open>
  \<open>nodetasks.Package\<close>; \<open>Deps\<close> is a slice of further packages, \<open>s(x)\<close> and
  \<open>fi.Bool(x)\<close> give non-nil pointers.
\<close>

datatype Package = Package
  (pkg_Name: string)
  (pkg_Version: "string option")
  (pkg_Source: "string option")
  (pkg_Hash: "string option")
  (pkg_Deps: "Package list")
  (PreventStart: "bool option")

record Service =
  sv_Name :: string
  Definition :: "string option"

text \<open>
  The tasks containerd.go creates. \<open>nodetasks.Chattr\<close> holds the tasks it depends on
  in \<open>Deps\<close>.
\<close>

datatype Task =
    FileTask File
  | ArchiveTask Archive
  | PackageTask Package
  | ChattrTask (ch_File: string) (ch_Mode: string) (ch_Deps: "Task list")
  | ServiceTask Service

subsection \<open>Errors, the log and the build context\<close>

datatype error =
    Errorf string
  | ErrorfWrap string error

datatype LogEntry =
    Infof string
  | Warningf string Distribution Architecture string
  | V8Infof string "string list"

text \<open>
  Modelled from the spec: \<open>fi.ModelBuilderContext\<close> and its method \<open>AddTask\<close> are
  declared in \<open>upup/pkg/fi\<close>, outside containerd.go. The spec: the build context
  "accumulates tasks emitted by all builders". The state of a build is the sequence of
  tasks handed to \<open>AddTask\<close>, oldest first, and the lines written to klog; how the
  context stores and merges the tasks it is handed (section 4.2 of the spec) is not part of
  this builder.
\<close>

record state =
  Tasks :: "Task list"
  klog :: "LogEntry list"

definition AddTask :: "Task \<Rightarrow> state \<Rightarrow> state" where
  "AddTask t c = c\<lparr>Tasks := Tasks c @ [t]\<rparr>"

definition klogWrite :: "LogEntry \<Rightarrow> state \<Rightarrow> state" where
  "klogWrite e c = c\<lparr>klog := klog c @ [e]\<rparr>"

subsection \<open>Functions and constants of other packages\<close>

text \<open>
  containerd.go calls into packages that are not part of the file. They are parameters of
  the model: the licence text \<open>resources.ContainerdApache2License\<close>,
  \<open>flagbuilder.BuildFlags\<close> (which returns the flags or an error),
  \<open>components.UsesKubenet\<close>, the rendering of a \<open>systemd.Manifest\<close> and
  \<open>Service.InitDefaults\<close>.
\<close>

record 'n externals =
  ContainerdApache2License :: string
  BuildFlags :: "ContainerdConfig \<Rightarrow> error + string"
  UsesKubenet :: "'n \<Rightarrow> bool"
  Render :: "(string \<times> string \<times> string) list \<Rightarrow> string"
  InitDefaults :: "Service \<Rightarrow> Service"

text \<open>\<open>strings.Join\<close>.\<close>

fun Join :: "string list \<Rightarrow> string \<Rightarrow> string" where
  "Join [] sep = []"
| "Join [x] sep = x"
| "Join (x # y # ys) sep = x @ sep @ Join (y # ys) sep"

subsection \<open>The catalog\<close>

text \<open>A catalog literal gives some fields; the others keep the zero value.\<close>

definition packageVersion_zero :: packageVersion where
  "packageVersion_zero =
     \<lparr>PackageVersion = [], Name = [], Distros = [], Architectures = [], Version = [],
      Source = [], Hash = [], PlainBinary = False, ExtraPackages = [], MarkImmutable = [],
      Dependencies = []\<rparr>"

definition containerdVersions :: "packageVersion list" where
  "containerdVersions =
   [ \<comment> \<open>1.2.4 - Debian Stretch\<close>
     packageVersion_zero
       \<lparr>PackageVersion := ''1.2.4'',
        Name := ''containerd.io'',
        Distros := [DistributionDebian9],
        Architectures := [ArchitectureAmd64],
        Version := ''1.2.4-1'',
        Source := ''https://download.docker.com/linux/debian/dists/stretch/pool/stable/amd64/containerd.io_1.2.4-1_amd64.deb'',
        Hash := ''48c6ab0c908316af9a183de5aad64703bc516bdf''\<rparr>,
     \<comment> \<open>1.2.10 - Debian Stretch\<close>
     packageVersion_zero
       \<lparr>PackageVersion := ''1.2.10'',
        Name := ''containerd.io'',
        Distros := [DistributionDebian9],
        Architectures := [ArchitectureAmd64],
        Version := ''1.2.10-3'',
        Source := ''https://download.docker.com/linux/debian/dists/stretch/pool/stable/amd64/containerd.io_1.2.10-3_amd64.deb'',
        Hash := ''186f2f2c570f37b363102e6b879073db6dec671d''\<rparr>,
     \<comment> \<open>1.2.10 - Debian Buster\<close>
     packageVersion_zero
       \<lparr>PackageVersion := ''1.2.10'',
        Name := ''containerd.io'',
        Distros := [DistributionDebian10],
        Architectures := [ArchitectureAmd64],
        Version := ''1.2.10-3'',
        Source := ''https://download.docker.com/linux/debian/dists/buster/pool/stable/amd64/containerd.io_1.2.10-3_amd64.deb'',
        Hash := ''365e4a7541ce2cf3c3036ea2a9bf6b40a50893a8''\<rparr>,
     \<comment> \<open>1.2.10 - Ubuntu Xenial\<close>
     packageVersion_zero
       \<lparr>PackageVersion := ''1.2.10'',
        Name := ''containerd.io'',
        Distros := [DistributionXenial],
        Architectures := [ArchitectureAmd64],
        Version := ''1.2.10-3'',
        Source := ''https://download.docker.com/linux/ubuntu/dists/xenial/pool/stable/amd64/containerd.io_1.2.10-3_amd64.deb'',
        Hash := ''b64e7170d9176bc38967b2e12147c69b65bdd0fc''\<rparr>,
     \<comment> \<open>1.2.10 - Ubuntu Bionic\<close>
     packageVersion_zero
       \<lparr>PackageVersion := ''1.2.10'',
        Name := ''containerd.io'',
        Distros := [DistributionBionic],
        Architectures := [ArchitectureAmd64],
        Version := ''1.2.10-3'',
        Source := ''https://download.docker.com/linux/ubuntu/dists/bionic/pool/stable/amd64/containerd.io_1.2.10-3_amd64.deb'',
        Hash := ''f4c941807310e3fa470dddfb068d599174a3daec''\<rparr>,
     \<comment> \<open>1.2.10 - CentOS7 / Rhel 7\<close>
     packageVersion_zero
       \<lparr>PackageVersion := ''1.2.10'',
        Name := ''containerd.io'',
        Distros := [DistributionRhel7, DistributionCentos7],
        Architectures := [ArchitectureAmd64],
        Version := ''1.2.10'',
        Source := ''https://download.docker.com/linux/centos/7/x86_64/stable/Packages/containerd.io-1.2.10-3.2.el7.x86_64.rpm'',
        Hash := ''f6447e84479df3a58ce04a3da87ccc384663493b''\<rparr>,
     \<comment> \<open>1.2.10 - CentOS8 / Rhel 8\<close>
     packageVersion_zero
       \<lparr>PackageVersion := ''1.2.10'',
        Name := ''containerd.io'',
        Distros := [DistributionRhel8, DistributionCentos8],
        Architectures := [ArchitectureAmd64],
        Version := ''1.2.10'',
        Source := ''https://download.docker.com/linux/centos/7/x86_64/stable/Packages/containerd.io-1.2.10-3.2.el7.x86_64.rpm'',
        Hash := ''f6447e84479df3a58ce04a3da87ccc384663493b''\<rparr>,
     \<comment> \<open>1.2.10 - Linux Generic (AmazonLinux2, UbuntuFocal)\<close>
     packageVersion_zero
       \<lparr>PackageVersion := ''1.2.10'',
        PlainBinary := True,
        Distros := [DistributionAmazonLinux2, DistributionFocal],
        Architectures := [ArchitectureAmd64],
        Source := ''https://storage.googleapis.com/cri-containerd-release/cri-containerd-1.2.10.linux-amd64.tar.gz'',
        Hash := ''c84c29dcd1867a6ee9899d2106ab4f28854945f6''\<rparr>,
     \<comment> \<open>1.2.11 - Linux Generic\<close>
     packageVersion_zero
       \<lparr>PackageVersion := ''1.2.11'',
        PlainBinary := True,
        Architectures := [ArchitectureAmd64],
        Source := ''https://storage.googleapis.com/cri-containerd-release/cri-containerd-1.2.11.linux-amd64.tar.gz'',
        Hash := ''c98c9fdfd0984557e5b1a1f209213d2d8ad8471c''\<rparr>,
     \<comment> \<open>1.2.12 - Linux Generic\<close>
     packageVersion_zero
       \<lparr>PackageVersion := ''1.2.12'',
        PlainBinary := True,
        Architectures := [ArchitectureAmd64],
        Source := ''https://storage.googleapis.com/cri-containerd-release/cri-containerd-1.2.12.linux-amd64.tar.gz'',
        Hash := ''9455ca2508ad57438cb02a986ba763033bcb05f7''\<rparr>,
     \<comment> \<open>1.2.13 - Linux Generic\<close>
     packageVersion_zero
       \<lparr>PackageVersion := ''1.2.13'',
        PlainBinary := True,
        Architectures := [ArchitectureAmd64],
        Source := ''https://storage.googleapis.com/cri-containerd-release/cri-containerd-1.2.13.linux-amd64.tar.gz'',
        Hash := ''70ee2821e26116b0cddc679d14806fd20d25d65c''\<rparr>,
     \<comment> \<open>1.3.2 - Linux Generic\<close>
     packageVersion_zero
       \<lparr>PackageVersion := ''1.3.2'',
        PlainBinary := True,
        Architectures := [ArchitectureAmd64],
        Source := ''https://storage.googleapis.com/cri-containerd-release/cri-containerd-1.3.2.linux-amd64.tar.gz'',
        Hash := ''f451d46280104588f236bee277bca1da8babc0e8''\<rparr>,
     \<comment> \<open>1.3.3 - Linux Generic\<close>
     packageVersion_zero
       \<lparr>PackageVersion := ''1.3.3'',
        PlainBinary := True,
        Architectures := [ArchitectureAmd64],
        Source := ''https://storage.googleapis.com/cri-containerd-release/cri-containerd-1.3.3.linux-amd64.tar.gz'',
        Hash := ''921b74e84da366ec3eaa72ff97fa8d6ae56834c6''\<rparr>,
     \<comment> \<open>1.3.4 - Linux Generic\<close>
     packageVersion_zero
       \<lparr>PackageVersion := ''1.3.4'',
        PlainBinary := True,
        Architectures := [ArchitectureAmd64],
        Source := ''https://storage.googleapis.com/cri-containerd-release/cri-containerd-1.3.4.linux-amd64.tar.gz'',
        Hash := ''ce518d8091ffdd40caa7f386c742d9b1d03e01b5''\<rparr> ]"

subsection \<open>The builder\<close>

definition containerdVersion :: "'n ContainerdBuilder \<Rightarrow> error + string" where
  "containerdVersion b =
     (let containerdVersion =
            (case Containerd (Spec b) of
               None \<Rightarrow> []
             | Some d \<Rightarrow> StringValue (Version_opt d))
      in if containerdVersion = [] then Inl (Errorf ''error finding containerd version'')
         else Inr containerdVersion)"

text \<open>\<open>skipInstall\<close>: do not skip the install if the user has not specified anything.\<close>

definition skipInstall :: "'n ContainerdBuilder \<Rightarrow> bool" where
  "skipInstall b = (case Containerd (Spec b) of None \<Rightarrow> False | Some d \<Rightarrow> SkipInstall d)"

definition newline :: string where
  "newline = [CHR 0x0A]"

definition sysconfigFile :: "string \<Rightarrow> File" where
  "sysconfigFile flagsString =
     (let lines = [''CONTAINERD_OPTS='' @ flagsString];
          contents = Join lines newline
      in \<lparr>AfterFiles = [], Path = ''/etc/sysconfig/containerd'', Contents = contents,
          Type = FileType_File, OnChangeExecute = []\<rparr>)"

text \<open>
  \<open>buildSysconfig\<close> writes the sysconfig file; an error of the flag builder is wrapped and
  returned, and then no task is added. \<open>containerdConfig\<close> is its local variable
  \<open>containerd\<close>: the section of the cluster specification, or the zero value.
\<close>

definition containerdConfig :: "'n ContainerdBuilder \<Rightarrow> ContainerdConfig" where
  "containerdConfig b =
     (case Containerd (Spec b) of None \<Rightarrow> ContainerdConfig_zero | Some d \<Rightarrow> d)"

definition buildSysconfig ::
  "'n externals \<Rightarrow> 'n ContainerdBuilder \<Rightarrow> state \<Rightarrow> error option \<times> state" where
  "buildSysconfig X b c =
     (let containerd = containerdConfig b
      in case BuildFlags X containerd of
           Inl err \<Rightarrow> (Some (ErrorfWrap ''error building containerd flags: %v'' err), c)
         | Inr flagsString \<Rightarrow> (None, AddTask (FileTask (sysconfigFile flagsString)) c))"

definition dropInFile :: File where
  "dropInFile =
     (let lines = [''[Service]'',
                   ''EnvironmentFile=/etc/sysconfig/containerd'',
                   ''EnvironmentFile=/etc/environment'',
                   ''TasksMax=infinity''];
          contents = Join lines newline
      in \<lparr>AfterFiles = [''/etc/sysconfig/containerd''],
          Path = ''/etc/systemd/system/containerd.service.d/10-kops.conf'',
          Contents = contents,
          Type = FileType_File,
          OnChangeExecute =
            [[''systemctl'', ''daemon-reload''],
             [''systemctl'', ''restart'', ''containerd.service''],
             [''systemctl'', ''restart'', ''kops-configuration.service'', ''&'']]\<rparr>)"

text \<open>\<open>buildContainerOSConfigurationDropIn\<close> configures the containerd daemon options.\<close>

definition buildContainerOSConfigurationDropIn ::
  "'n externals \<Rightarrow> 'n ContainerdBuilder \<Rightarrow> state \<Rightarrow> error option \<times> state" where
  "buildContainerOSConfigurationDropIn X b c =
     (let c1 = AddTask (FileTask dropInFile) c
      in case buildSysconfig X b c1 of
           (Some err, c2) \<Rightarrow> (Some err, c2)
         | (None, c2) \<Rightarrow> (None, c2))"

text \<open>
  \<open>buildSystemdService\<close>: the manifest is the sequence of its \<open>Set\<close> calls (section,
  key, value); the service is returned together with the log line written on the way.
\<close>

definition serviceManifest :: "(string \<times> string \<times> string) list" where
  "serviceManifest =
     [(''Unit'', ''Description'', ''containerd container runtime''),
      (''Unit'', ''Documentation'', ''https://containerd.io''),
      (''Unit'', ''After'', ''network.target local-fs.target''),
      (''Service'', ''EnvironmentFile'', ''/etc/sysconfig/containerd''),
      (''Service'', ''EnvironmentFile'', ''/etc/environment''),
      (''Service'', ''ExecStartPre'', ''-/sbin/modprobe overlay''),
      (''Service'', ''ExecStart'',
         ''/usr/bin/containerd -c /etc/containerd/config-kops.toml \"$CONTAINERD_OPTS\"''),
      (''Service'', ''Restart'', ''always''),
      (''Service'', ''RestartSec'', ''5''),
      (''Service'', ''Delegate'', ''yes''),
      (''Service'', ''KillMode'', ''process''),
      (''Service'', ''OOMScoreAdjust'', ''-999''),
      (''Service'', ''LimitNOFILE'', ''1048576''),
      (''Service'', ''LimitNPROC'', ''infinity''),
      (''Service'', ''LimitCORE'', ''infinity''),
      (''Service'', ''TasksMax'', ''infinity''),
      (''Install'', ''WantedBy'', ''multi-user.target'')]"

definition buildSystemdService :: "'n externals \<Rightarrow> state \<Rightarrow> Service \<times> state" where
  "buildSystemdService X c =
     (let manifestString = Render X serviceManifest;
          c1 = klogWrite (V8Infof (''Built service manifest %q'' @ newline @ ''%s'')
                            [''containerd'', manifestString]) c;
          service = \<lparr>sv_Name = ''containerd.service'', Definition = Some manifestString\<rparr>
      in (InitDefaults X service, c1))"

definition kubenetCNIConfigTemplate :: File where
  "kubenetCNIConfigTemplate =
     (let lines = [''{'',
                   ''    \"cniVersion\": \"0.3.1\",'',
                   ''    \"name\": \"kubenet\",'',
                   ''    \"plugins\": ['',
                   ''        {'',
                   ''            \"type\": \"bridge\",'',
                   ''            \"bridge\": \"cbr0\",'',
                   ''            \"mtu\": 1460,'',
                   ''            \"addIf\": \"eth0\",'',
                   ''            \"isGateway\": true,'',
                   ''            \"ipMasq\": true,'',
                   ''            \"promiscMode\": true,'',
                   ''            \"ipam\": {'',
                   ''                \"type\": \"host-local\",'',
                   ''                \"subnet\": \"{{.PodCIDR}}\",'',
                   ''                \"routes\": [{ \"dst\": \"0.0.0.0/0\" }]'',
                   ''            }'',
                   ''        }'',
                   ''    ]'',
                   ''}''];
          contents = Join lines newline
      in \<lparr>AfterFiles = [], Path = ''/etc/containerd/cni-config.template'',
          Contents = contents, Type = FileType_File, OnChangeExecute = []\<rparr>)"

definition buildKubenetCNIConfigTemplate :: "state \<Rightarrow> state" where
  "buildKubenetCNIConfigTemplate c =
     (let c1 = klogWrite (V8Infof (''Built kubenet CNI config file'' @ newline @ ''%s'')
                            [Contents kubenetCNIConfigTemplate]) c
      in AddTask (FileTask kubenetCNIConfigTemplate) c1)"

subsection \<open>The package loop of \<open>Build\<close>\<close>

text \<open>One entry of \<open>ExtraPackages\<close> becomes a package of its own.\<close>

definition extraPkg :: "string \<times> packageInfo \<Rightarrow> Package" where
  "extraPkg e =
     (case e of (name, pkg) \<Rightarrow>
        Package name (Some (pi_Version pkg)) (Some (pi_Source pkg)) (Some (pi_Hash pkg)) []
          (Some True))"

text \<open>
  \<open>packageTask\<close> of a matching record: an archive for a plain binary, otherwise the
  package, which carries the extra packages in its \<open>Deps\<close>.
\<close>

definition packageTask :: "packageVersion \<Rightarrow> Task" where
  "packageTask dv =
     (if PlainBinary dv then
        ArchiveTask
          \<lparr>ar_Name = ''containerd.io'', ar_Source = Source dv, ar_Hash = Hash dv,
           TargetDir = ''/'',
           MapFiles = [(''./usr/local/bin'', ''/usr''), (''./usr/local/sbin'', ''/usr'')]\<rparr>
      else
        (let extraPkgs = map extraPkg (ExtraPackages dv)
         in PackageTask
              (Package (Name dv) (Some (Version dv)) (Some (Source dv)) (Some (Hash dv))
                 extraPkgs (Some True))))"

text \<open>
  The body of the loop for one matching record: the package task, one \<open>Chattr\<close> per
  file to mark immutable (it depends on the package task), one bare package per dependency.
\<close>

definition addRecord :: "packageVersion \<Rightarrow> state \<Rightarrow> state" where
  "addRecord dv c =
     (let c1 = AddTask (packageTask dv) c;
          c2 = fold (\<lambda>f. AddTask (ChattrTask f ''+i'' [packageTask dv])) (MarkImmutable dv) c1;
          c3 = fold (\<lambda>dep. AddTask (PackageTask (Package dep None None None [] None)))
                 (Dependencies dv) c2
      in c3)"

text \<open>
  The loop \<open>for i := range containerdVersions\<close>, over the records still to visit, with
  the counter and the context as they stand. A record that does not match is skipped; the
  loop does not stop at a match.
\<close>

fun addPackages ::
  "packageVersion list \<Rightarrow> Architecture \<Rightarrow> string \<Rightarrow> Distribution \<Rightarrow> nat \<times> state \<Rightarrow> nat \<times> state" where
  "addPackages [] arch v distro (count, c) = (count, c)"
| "addPackages (dv # rest) arch v distro (count, c) =
     (if \<not> matches dv arch v distro then addPackages rest arch v distro (count, c)
      else addPackages rest arch v distro (count + 1, addRecord dv c))"

subsection \<open>\<open>Build\<close>\<close>

definition licenseFile :: "'n externals \<Rightarrow> File" where
  "licenseFile X =
     \<lparr>AfterFiles = [], Path = ''/usr/share/doc/containerd/apache.txt'',
      Contents = ContainerdApache2License X, Type = FileType_File, OnChangeExecute = []\<rparr>"

definition configFile :: "'n ContainerdBuilder \<Rightarrow> File" where
  "configFile b =
     (let containerdConfigOverride =
            (case Containerd (Spec b) of
               None \<Rightarrow> []
             | Some d \<Rightarrow> StringValue (ConfigOverride d))
      in \<lparr>AfterFiles = [], Path = ''/etc/containerd/config-kops.toml'',
          Contents = containerdConfigOverride, Type = FileType_File, OnChangeExecute = []\<rparr>)"

text \<open>
  \<open>Build\<close> configures the containerd daemon. It returns the error (\<open>None\<close> for
  Go's nil) and the context and log as it leaves them.
\<close>

definition Build ::
  "'n externals \<Rightarrow> 'n ContainerdBuilder \<Rightarrow> state \<Rightarrow> error option \<times> state" where
  "Build X b c =
     (if skipInstall b then
        (None, klogWrite (Infof ''SkipInstall is set to true; won't install containerd'') c)
      else if Distribution b = DistributionFlatcar then
        (case buildContainerOSConfigurationDropIn X b
                (klogWrite (Infof ''Detected Flatcar; won't install containerd'') c) of
           (Some err, c1) \<Rightarrow> (Some err, c1)
         | (None, c1) \<Rightarrow> (None, c1))
      else if Distribution b = DistributionContainerOS then
        (case buildContainerOSConfigurationDropIn X b
                (klogWrite (Infof ''Detected ContainerOS; won't install containerd'') c) of
           (Some err, c1) \<Rightarrow> (Some err, c1)
         | (None, c1) \<Rightarrow> (None, c1))
      else
        (let c1 = AddTask (FileTask (licenseFile X)) c;
             c2 = AddTask (FileTask (configFile b)) c1
         in case containerdVersion b of
              Inl err \<Rightarrow> (Some err, c2)
            | Inr v \<Rightarrow>
                (case addPackages containerdVersions (Architecture b) v (Distribution b) (0, c2) of
                   (count, c3) \<Rightarrow>
                     (let c4 = (if count = 0 then
                                  klogWrite (Warningf ''Did not find containerd package for %s %s %s''
                                               (Distribution b) (Architecture b) v) c3
                                else c3)
                      in case buildSystemdService X c4 of
                           (service, c5) \<Rightarrow>
                             (case buildSysconfig X b (AddTask (ServiceTask service) c5) of
                                (Some err, c6) \<Rightarrow> (Some err, c6)
                              | (None, c6) \<Rightarrow>
                                  (let usesKubenet = UsesKubenet X (Networking (Spec b))
                                   in if ContainerRuntime (Spec b) = ''containerd'' \<and> usesKubenet
                                      then (None, buildKubenetCNIConfigTemplate c6)
                                      else (None, c6)))))))"

subsection \<open>Selection as the spec words it\<close>

text \<open>
  Section 4.1 of the spec: \<open>select(distribution, architecture, requestedVersion)\<close> gives
  the ordered list of the records of the catalog that are candidates. \<open>recordTasks\<close>
  lists what the loop body adds for one record.
\<close>

definition select ::
  "packageVersion list \<Rightarrow> Distribution \<Rightarrow> Architecture \<Rightarrow> string \<Rightarrow> packageVersion list" where
  "select catalog distribution architecture requestedVersion =
     filter (\<lambda>r. matches r architecture requestedVersion distribution) catalog"

definition recordTasks :: "packageVersion \<Rightarrow> Task list" where
  "recordTasks dv =
     packageTask dv
     # map (\<lambda>f. ChattrTask f ''+i'' [packageTask dv]) (MarkImmutable dv)
     @ map (\<lambda>dep. PackageTask (Package dep None None None [] None)) (Dependencies dv)"

fun isPackageTask :: "Task \<Rightarrow> bool" where
  "isPackageTask (PackageTask p) = True"
| "isPackageTask t = False"

subsection \<open>Applying a file task\<close>

text \<open>
  Modelled from the spec: the apply of \<open>nodetasks.File\<close> is in
  \<open>upup/pkg/fi/nodeup/nodetasks\<close>, outside containerd.go. Section 4.4 of the spec, the
  mutating target: "compute current observed state, diff it against desiredState; if equal,
  skip; if different, perform the minimal corrective action and, if state actually changed,
  run onChangeActions in declared order"; section 6, the file task: the commands "run only
  if content changed". A node is the content of its files and the commands run on it so far.
\<close>

record node =
  files :: "string \<Rightarrow> string option"
  executed :: "string list list"

definition applyFile :: "File \<Rightarrow> node \<Rightarrow> node" where
  "applyFile t n =
     (if files n (Path t) = Some (Contents t) then n
      else n\<lparr>files := (files n)(Path t := Some (Contents t)),
             executed := executed n @ OnChangeExecute t\<rparr>)"

subsection \<open>Sample inputs\<close>

text \<open>
  Concrete values for the worked instances below: an instance of the functions of other
  packages (the networking section is a flag that says whether kubenet is used), an empty
  context, and some builders.
\<close>

definition sampleExternals :: "bool externals" where
  "sampleExternals =
     \<lparr>ContainerdApache2License = ''Apache License 2.0'',
      BuildFlags = (\<lambda>cfg. Inr []),
      UsesKubenet = (\<lambda>n. n),
      Render = (\<lambda>m. concat (map (\<lambda>(s, k, v). k @ ''='' @ v @ newline) m)),
      InitDefaults = (\<lambda>sv. sv)\<rparr>"

text \<open>The same instance, with a flag builder that returns an error.\<close>

definition failingExternals :: "bool externals" where
  "failingExternals = sampleExternals\<lparr>BuildFlags := (\<lambda>cfg. Inl (Errorf ''unhandled flag''))\<rparr>"

definition emptyState :: state where
  "emptyState = \<lparr>Tasks = [], klog = []\<rparr>"

definition builderOf ::
  "ContainerdConfig option \<Rightarrow> Distribution \<Rightarrow> Architecture \<Rightarrow> bool ContainerdBuilder" where
  "builderOf section distro arch =
     \<lparr>Spec = \<lparr>Containerd = section, Networking = False, ContainerRuntime = ''containerd''\<rparr>,
      Distribution = distro, Architecture = arch\<rparr>"

definition versionConfig :: "string \<Rightarrow> ContainerdConfig" where
  "versionConfig v = \<lparr>ConfigOverride = None, SkipInstall = False, Version_opt = Some v\<rparr>"

definition skipConfig :: ContainerdConfig where
  "skipConfig = \<lparr>ConfigOverride = None, SkipInstall = True, Version_opt = None\<rparr>"

text \<open>
  A managed-package record with a companion package and a file to mark immutable, as a
  CentOS install needs; no record of \<open>containerdVersions\<close> has either so far.
\<close>

definition sampleExtra :: "string \<times> packageInfo" where
  "sampleExtra =
     (''container-selinux'',
      \<lparr>pi_Version = ''2.68'', pi_Source = ''https://example.org/container-selinux.rpm'',
       pi_Hash = ''0123''\<rparr>)"

definition sampleRecord :: packageVersion where
  "sampleRecord =
     packageVersion_zero
       \<lparr>PackageVersion := ''1.2.10'',
        Name := ''containerd.io'',
        Distros := [DistributionCentos7],
        Architectures := [ArchitectureAmd64],
        Version := ''1.2.10'',
        Source := ''https://example.org/containerd.io.rpm'',
        Hash := ''4567'',
        ExtraPackages := [sampleExtra],
        MarkImmutable := [''/usr/bin/runc'']\<rparr>"

definition sampleGeneric :: packageVersion where
  "sampleGeneric =
     packageVersion_zero
       \<lparr>PackageVersion := ''1.2.10'',
        PlainBinary := True,
        Architectures := [ArchitectureAmd64],
        Source := ''https://example.org/cri-containerd.tar.gz'',
        Hash := ''89ab''\<rparr>"

definition sampleNode :: "string option \<Rightarrow> node" where
  "sampleNode present =
     \<lparr>files = (\<lambda>p. if p = ''/etc/systemd/system/containerd.service.d/10-kops.conf''
                    then present else None),
      executed = []\<rparr>"

section \<open>Properties\<close>

subsection \<open>The context and the log\<close>

lemma Tasks_AddTask [simp]: "Tasks (AddTask t c) = Tasks c @ [t]"
  by (simp add: AddTask_def)

lemma klog_AddTask [simp]: "klog (AddTask t c) = klog c"
  by (simp add: AddTask_def)

lemma Tasks_klogWrite [simp]: "Tasks (klogWrite e c) = Tasks c"
  by (simp add: klogWrite_def)

lemma klog_klogWrite [simp]: "klog (klogWrite e c) = klog c @ [e]"
  by (simp add: klogWrite_def)

lemma Tasks_fold_AddTask: "Tasks (fold (\<lambda>x. AddTask (f x)) xs c) = Tasks c @ map f xs"
  by (induction xs arbitrary: c) simp_all

lemma klog_fold_AddTask: "klog (fold (\<lambda>x. AddTask (f x)) xs c) = klog c"
  by (induction xs arbitrary: c) simp_all

subsection \<open>The package loop\<close>

lemma Tasks_addRecord: "Tasks (addRecord dv c) = Tasks c @ recordTasks dv"
  by (simp add: addRecord_def recordTasks_def Tasks_fold_AddTask)

lemma klog_addRecord: "klog (addRecord dv c) = klog c"
  by (simp add: addRecord_def klog_fold_AddTask)

text \<open>The loop visits every record: it is a fold of the loop body over the selection.\<close>

lemma addPackages_fold:
  "addPackages cat arch v distro (n, c) =
     (n + length (select cat distro arch v), fold addRecord (select cat distro arch v) c)"
  by (induction cat arbitrary: n c) (simp_all add: select_def)

lemma Tasks_fold_addRecord:
  "Tasks (fold addRecord rs c) = Tasks c @ concat (map recordTasks rs)"
  by (induction rs arbitrary: c) (simp_all add: Tasks_addRecord)

lemma klog_fold_addRecord: "klog (fold addRecord rs c) = klog c"
  by (induction rs arbitrary: c) (simp_all add: klog_addRecord)

lemma count_addPackages:
  "fst (addPackages cat arch v distro (n, c)) = n + length (select cat distro arch v)"
  by (simp add: addPackages_fold)

lemma Tasks_addPackages:
  "Tasks (snd (addPackages cat arch v distro (n, c))) =
     Tasks c @ concat (map recordTasks (select cat distro arch v))"
  by (simp add: addPackages_fold Tasks_fold_addRecord)

lemma klog_addPackages: "klog (snd (addPackages cat arch v distro (n, c))) = klog c"
  by (simp add: addPackages_fold klog_fold_addRecord)

lemma select_iff:
  "r \<in> set (select cat distro arch v) \<longleftrightarrow>
     r \<in> set cat \<and> PackageVersion r = v
     \<and> (Distros r = [] \<or> distro \<in> set (Distros r))
     \<and> (Architectures r = [] \<or> arch \<in> set (Architectures r))"
  by (auto simp: select_def matches_def)

subsection \<open>The paths of \<open>Build\<close>\<close>

lemma containerdVersion_missing:
  "Containerd (Spec b) = None
   \<or> (\<exists>d. Containerd (Spec b) = Some d \<and> (Version_opt d = None \<or> Version_opt d = Some []))
   \<Longrightarrow> containerdVersion b = Inl (Errorf ''error finding containerd version'')"
  by (auto simp: containerdVersion_def StringValue_def)

lemma buildSysconfig_ok:
  "BuildFlags X (containerdConfig b) = Inr flagsString \<Longrightarrow>
     buildSysconfig X b c = (None, AddTask (FileTask (sysconfigFile flagsString)) c)"
  by (simp add: buildSysconfig_def)

lemma dropIn_ok:
  "BuildFlags X (containerdConfig b) = Inr flagsString \<Longrightarrow>
     buildContainerOSConfigurationDropIn X b c =
       (None, AddTask (FileTask (sysconfigFile flagsString)) (AddTask (FileTask dropInFile) c))"
  by (simp add: buildContainerOSConfigurationDropIn_def buildSysconfig_ok)

lemma Build_dropIn_path:
  assumes "\<not> skipInstall b"
    and "Distribution b = DistributionFlatcar \<or> Distribution b = DistributionContainerOS"
    and "BuildFlags X (containerdConfig b) = Inr flagsString"
  shows "fst (Build X b c) = None"
    and "Tasks (snd (Build X b c)) =
           Tasks c @ [FileTask dropInFile, FileTask (sysconfigFile flagsString)]"
  using assms by (auto simp: Build_def dropIn_ok)


text \<open>
  The install path, up to the service task: the licence and the configuration file, the
  tasks of the selected records, then the warning if nothing was selected.
\<close>

lemma Build_install_path:
  assumes "\<not> skipInstall b"
    and "Distribution b \<noteq> DistributionFlatcar"
    and "Distribution b \<noteq> DistributionContainerOS"
    and "containerdVersion b = Inr v"
    and "BuildFlags X (containerdConfig b) = Inr flagsString"
  shows "fst (Build X b c) = None"
    and "Tasks (snd (Build X b c)) =
           Tasks c
           @ [FileTask (licenseFile X), FileTask (configFile b)]
           @ concat (map recordTasks
                (select containerdVersions (Distribution b) (Architecture b) v))
           @ [ServiceTask (InitDefaults X
                \<lparr>sv_Name = ''containerd.service'',
                 Definition = Some (Render X serviceManifest)\<rparr>),
              FileTask (sysconfigFile flagsString)]
           @ (if ContainerRuntime (Spec b) = ''containerd'' \<and> UsesKubenet X (Networking (Spec b))
              then [FileTask kubenetCNIConfigTemplate] else [])"
    and "select containerdVersions (Distribution b) (Architecture b) v = [] \<Longrightarrow>
           Warningf ''Did not find containerd package for %s %s %s''
             (Distribution b) (Architecture b) v \<in> set (klog (snd (Build X b c)))"
proof -
  let ?sel = "select containerdVersions (Distribution b) (Architecture b) v"
  let ?c2 = "AddTask (FileTask (configFile b)) (AddTask (FileTask (licenseFile X)) c)"
  have loop: "addPackages containerdVersions (Architecture b) v (Distribution b) (0, ?c2) =
                (length ?sel, fold addRecord ?sel ?c2)"
    by (simp add: addPackages_fold)
  show "fst (Build X b c) = None"
    using assms
    by (simp add: Build_def loop buildSystemdService_def buildSysconfig_ok Let_def)
  show "Tasks (snd (Build X b c)) =
           Tasks c
           @ [FileTask (licenseFile X), FileTask (configFile b)]
           @ concat (map recordTasks ?sel)
           @ [ServiceTask (InitDefaults X
                \<lparr>sv_Name = ''containerd.service'',
                 Definition = Some (Render X serviceManifest)\<rparr>),
              FileTask (sysconfigFile flagsString)]
           @ (if ContainerRuntime (Spec b) = ''containerd'' \<and> UsesKubenet X (Networking (Spec b))
              then [FileTask kubenetCNIConfigTemplate] else [])"
    using assms
    by (simp add: Build_def loop buildSystemdService_def buildSysconfig_ok Let_def
          Tasks_fold_addRecord buildKubenetCNIConfigTemplate_def)
  show "Warningf ''Did not find containerd package for %s %s %s''
             (Distribution b) (Architecture b) v \<in> set (klog (snd (Build X b c)))"
    if "?sel = []"
    using assms that
    by (simp add: Build_def loop buildSystemdService_def buildSysconfig_ok Let_def
          buildKubenetCNIConfigTemplate_def)
qed

lemma Build_install_packages:
  assumes "\<not> skipInstall b"
    and "Distribution b \<noteq> DistributionFlatcar"
    and "Distribution b \<noteq> DistributionContainerOS"
    and "containerdVersion b = Inr v"
  shows "set (concat (map recordTasks
            (select containerdVersions (Distribution b) (Architecture b) v)))
         \<subseteq> set (Tasks (snd (Build X b c)))"
proof -
  let ?sel = "select containerdVersions (Distribution b) (Architecture b) v"
  let ?c2 = "AddTask (FileTask (configFile b)) (AddTask (FileTask (licenseFile X)) c)"
  have loop: "addPackages containerdVersions (Architecture b) v (Distribution b) (0, ?c2) =
                (length ?sel, fold addRecord ?sel ?c2)"
    by (simp add: addPackages_fold)
  show ?thesis
  proof (cases "BuildFlags X (containerdConfig b)")
    case (Inl err)
    then show ?thesis
      using assms
      by (auto simp: Build_def loop buildSystemdService_def buildSysconfig_def Let_def
            Tasks_fold_addRecord)
  next
    case (Inr flagsString)
    then show ?thesis
      using assms
      by (auto simp: Build_def loop buildSystemdService_def buildSysconfig_def Let_def
            Tasks_fold_addRecord buildKubenetCNIConfigTemplate_def)
  qed
qed

subsection \<open>Selection\<close>

text \<open>
  C1. Selection is inclusive, not first-match. The scan \<open>addPackages\<close> goes through
  every record of the catalog it is given: every record whose \<open>PackageVersion\<close> is
  the requested version and whose distribution and architecture constraints are satisfied
  (an empty constraint satisfies any value) contributes its install task, wherever it
  stands in the catalog and whatever matched before it; the counter is the number of all
  the records that match, so it is at least 1 when one matches. \<open>Build\<close> runs this scan
  on \<open>containerdVersions\<close>, and the install task of every matching record is among the
  tasks it leaves in the context.
\<close>

theorem selection_inclusive:
  assumes "dv \<in> set cat"
    and "PackageVersion dv = v"
    and "Distros dv = [] \<or> distro \<in> set (Distros dv)"
    and "Architectures dv = [] \<or> arch \<in> set (Architectures dv)"
  shows "packageTask dv \<in> set (Tasks (snd (addPackages cat arch v distro (n, c))))
         \<and> fst (addPackages cat arch v distro (0, c)) = length (select cat distro arch v)
         \<and> 1 \<le> fst (addPackages cat arch v distro (0, c))
         \<and> (cat = containerdVersions \<and> \<not> skipInstall b
              \<and> Distribution b = distro \<and> Architecture b = arch
              \<and> distro \<noteq> DistributionFlatcar \<and> distro \<noteq> DistributionContainerOS
              \<and> containerdVersion b = Inr v
            \<longrightarrow> packageTask dv \<in> set (Tasks (snd (Build X b c))))"
proof -
  have sel: "dv \<in> set (select cat distro arch v)"
    using assms by (simp add: select_iff)
  have own: "packageTask dv \<in> set (recordTasks dv)"
    by (simp add: recordTasks_def)
  have "packageTask dv \<in> set (concat (map recordTasks (select cat distro arch v)))"
    using sel own by auto
  then have task: "packageTask dv \<in> set (Tasks (snd (addPackages cat arch v distro (n, c))))"
    by (simp add: Tasks_addPackages)
  have count: "fst (addPackages cat arch v distro (0, c)) = length (select cat distro arch v)"
    by (simp add: count_addPackages)
  have "select cat distro arch v \<noteq> []"
    using sel by auto
  then have "1 \<le> length (select cat distro arch v)"
    by (cases "select cat distro arch v") simp_all
  then have one: "1 \<le> fst (addPackages cat arch v distro (0, c))"
    using count by simp
  have build: "packageTask dv \<in> set (Tasks (snd (Build X b c)))"
    if "cat = containerdVersions" "\<not> skipInstall b" "Distribution b = distro"
      "Architecture b = arch" "distro \<noteq> DistributionFlatcar"
      "distro \<noteq> DistributionContainerOS" "containerdVersion b = Inr v"
  proof -
    have "packageTask dv \<in> set (concat (map recordTasks
            (select containerdVersions (Distribution b) (Architecture b) v)))"
      using sel own that by auto
    moreover have "set (concat (map recordTasks
            (select containerdVersions (Distribution b) (Architecture b) v)))
         \<subseteq> set (Tasks (snd (Build X b c)))"
      using that by (intro Build_install_packages) simp_all
    ultimately show ?thesis by blast
  qed
  show ?thesis
    using task count one build by blast
qed

text \<open>
  Two instances. On \<open>containerdVersions\<close>, Debian 9 with version 1.2.4: the first
  record matches, and \<open>Build\<close> leaves its package task in the context. On a catalog of
  two records that both match CentOS 7 with version 1.2.10, both are counted, and the task
  of the second one is added as well.
\<close>

theorem selection_inclusive_witness:
  "hd containerdVersions \<in> set containerdVersions
   \<and> PackageVersion (hd containerdVersions) = ''1.2.4''
   \<and> DistributionDebian9 \<in> set (Distros (hd containerdVersions))
   \<and> ArchitectureAmd64 \<in> set (Architectures (hd containerdVersions))
   \<and> \<not> skipInstall (builderOf (Some (versionConfig ''1.2.4'')) DistributionDebian9 ArchitectureAmd64)
   \<and> containerdVersion (builderOf (Some (versionConfig ''1.2.4'')) DistributionDebian9 ArchitectureAmd64)
       = Inr ''1.2.4''
   \<and> fst (addPackages containerdVersions ArchitectureAmd64 ''1.2.4'' DistributionDebian9
            (0, emptyState)) = 1
   \<and> packageTask (hd containerdVersions)
       \<in> set (Tasks (snd (Build sampleExternals
            (builderOf (Some (versionConfig ''1.2.4'')) DistributionDebian9 ArchitectureAmd64)
            emptyState)))
   \<and> sampleGeneric \<in> set [sampleRecord, sampleGeneric]
   \<and> PackageVersion sampleGeneric = ''1.2.10''
   \<and> Distros sampleGeneric = []
   \<and> ArchitectureAmd64 \<in> set (Architectures sampleGeneric)
   \<and> fst (addPackages [sampleRecord, sampleGeneric] ArchitectureAmd64 ''1.2.10''
            DistributionCentos7 (0, emptyState)) = 2
   \<and> packageTask sampleGeneric
       \<in> set (Tasks (snd (addPackages [sampleRecord, sampleGeneric] ArchitectureAmd64 ''1.2.10''
            DistributionCentos7 (0, emptyState))))"
  using selection_inclusive [where dv = "hd containerdVersions" and cat = containerdVersions
      and v = "''1.2.4''" and distro = DistributionDebian9 and arch = ArchitectureAmd64
      and n = 0 and c = emptyState and X = sampleExternals
      and b = "builderOf (Some (versionConfig ''1.2.4'')) DistributionDebian9 ArchitectureAmd64"]
    selection_inclusive [where dv = sampleGeneric and cat = "[sampleRecord, sampleGeneric]"
      and v = "''1.2.10''" and distro = DistributionCentos7 and arch = ArchitectureAmd64
      and n = 0 and c = emptyState and X = sampleExternals
      and b = "builderOf (Some (versionConfig ''1.2.4'')) DistributionDebian9 ArchitectureAmd64"]
  by (simp add: containerdVersions_def packageVersion_zero_def select_def matches_def
        skipInstall_def containerdVersion_def builderOf_def versionConfig_def StringValue_def
        sampleGeneric_def sampleRecord_def)

text \<open>
  C2. Selection is deterministic. Two runs of the scan over \<open>containerdVersions\<close> with
  the same distribution, architecture and requested version count the same number of
  records and add the same tasks in the same order, whatever the contexts and logs they
  start from: the tasks added are those of the records of
  \<open>select containerdVersions distro arch v\<close>, in the order of the catalog, and the
  scan writes nothing to the log. No record of the catalog has extra packages, so the order
  in which Go ranges over that map plays no part.
\<close>

theorem selection_deterministic:
  "fst (addPackages containerdVersions arch v distro (n, c1))
     = fst (addPackages containerdVersions arch v distro (n, c2))
   \<and> drop (length (Tasks c1)) (Tasks (snd (addPackages containerdVersions arch v distro (n1, c1))))
     = drop (length (Tasks c2)) (Tasks (snd (addPackages containerdVersions arch v distro (n2, c2))))
   \<and> fst (addPackages containerdVersions arch v distro (0, c1))
     = length (select containerdVersions distro arch v)
   \<and> Tasks (snd (addPackages containerdVersions arch v distro (n1, c1)))
     = Tasks c1 @ concat (map recordTasks (select containerdVersions distro arch v))
   \<and> klog (snd (addPackages containerdVersions arch v distro (n1, c1))) = klog c1
   \<and> concat (map ExtraPackages containerdVersions) = []"
proof -
  have "concat (map ExtraPackages containerdVersions) = []"
    by (simp add: containerdVersions_def packageVersion_zero_def)
  then show ?thesis
    by (simp add: count_addPackages Tasks_addPackages klog_addPackages)
qed

text \<open>
  An instance: CentOS 7 with version 1.2.10, from the empty context and from a context
  that already holds a task and a log line.
\<close>

theorem selection_deterministic_witness:
  "fst (addPackages containerdVersions ArchitectureAmd64 ''1.2.10'' DistributionCentos7
          (0, emptyState)) = 1
   \<and> fst (addPackages containerdVersions ArchitectureAmd64 ''1.2.10'' DistributionCentos7
          (0, klogWrite (Infof ''x'') (AddTask (FileTask dropInFile) emptyState))) = 1
   \<and> drop (length (Tasks emptyState))
        (Tasks (snd (addPackages containerdVersions ArchitectureAmd64 ''1.2.10''
           DistributionCentos7 (0, emptyState))))
     = drop (length (Tasks (klogWrite (Infof ''x'') (AddTask (FileTask dropInFile) emptyState))))
        (Tasks (snd (addPackages containerdVersions ArchitectureAmd64 ''1.2.10''
           DistributionCentos7
           (0, klogWrite (Infof ''x'') (AddTask (FileTask dropInFile) emptyState)))))"
  using selection_deterministic [where arch = ArchitectureAmd64 and v = "''1.2.10''"
      and distro = DistributionCentos7 and n = 0 and ?n1.0 = 0 and ?n2.0 = 0
      and ?c1.0 = emptyState
      and ?c2.0 = "klogWrite (Infof ''x'') (AddTask (FileTask dropInFile) emptyState)"]
    selection_deterministic [where arch = ArchitectureAmd64 and v = "''1.2.10''"
      and distro = DistributionCentos7 and n = 0 and ?n1.0 = 0 and ?n2.0 = 0
      and ?c2.0 = emptyState
      and ?c1.0 = "klogWrite (Infof ''x'') (AddTask (FileTask dropInFile) emptyState)"]
  by (simp add: containerdVersions_def packageVersion_zero_def select_def matches_def)

text \<open>
  C6. For Debian 9, amd64 and the requested version 1.2.4, selection gives exactly one
  record, the one of version 1.2.4-1, which has no extra packages; the scan counts one
  record and adds its package task, with no dependent packages.
\<close>

theorem select_Debian9_exactly_one:
  "length (select containerdVersions DistributionDebian9 ArchitectureAmd64 ''1.2.4'') = 1
   \<and> map Version (select containerdVersions DistributionDebian9 ArchitectureAmd64 ''1.2.4'')
       = [''1.2.4-1'']
   \<and> map ExtraPackages (select containerdVersions DistributionDebian9 ArchitectureAmd64 ''1.2.4'')
       = [[]]
   \<and> fst (addPackages containerdVersions ArchitectureAmd64 ''1.2.4'' DistributionDebian9 (0, c)) = 1
   \<and> Tasks (snd (addPackages containerdVersions ArchitectureAmd64 ''1.2.4'' DistributionDebian9 (0, c)))
       = Tasks c @
         [PackageTask (Package ''containerd.io'' (Some ''1.2.4-1'')
            (Some ''https://download.docker.com/linux/debian/dists/stretch/pool/stable/amd64/containerd.io_1.2.4-1_amd64.deb'')
            (Some ''48c6ab0c908316af9a183de5aad64703bc516bdf'') [] (Some True))]"
proof -
  have sel: "select containerdVersions DistributionDebian9 ArchitectureAmd64 ''1.2.4''
               = [hd containerdVersions]"
    by (simp add: select_def containerdVersions_def matches_def packageVersion_zero_def)
  have rec: "recordTasks (hd containerdVersions) =
         [PackageTask (Package ''containerd.io'' (Some ''1.2.4-1'')
            (Some ''https://download.docker.com/linux/debian/dists/stretch/pool/stable/amd64/containerd.io_1.2.4-1_amd64.deb'')
            (Some ''48c6ab0c908316af9a183de5aad64703bc516bdf'') [] (Some True))]"
    by (simp add: containerdVersions_def packageVersion_zero_def recordTasks_def
          packageTask_def)
  have fields: "Version (hd containerdVersions) = ''1.2.4-1''"
    "ExtraPackages (hd containerdVersions) = []"
    by (simp_all add: containerdVersions_def packageVersion_zero_def)
  show ?thesis
    by (simp add: count_addPackages Tasks_addPackages sel rec fields)
qed

theorem select_Debian9_exactly_one_witness:
  "fst (addPackages containerdVersions ArchitectureAmd64 ''1.2.4'' DistributionDebian9
          (0, emptyState)) = 1
   \<and> map Version (select containerdVersions DistributionDebian9 ArchitectureAmd64 ''1.2.4'')
       = [''1.2.4-1'']"
  using select_Debian9_exactly_one [of emptyState] by simp

subsection \<open>Flatcar and ContainerOS\<close>

text \<open>
  C3, as stated, fails: \<open>buildSysconfig\<close> returns the error of the flag builder, and
  \<open>Build\<close> passes it on. On Flatcar, with the install not skipped and a flag builder
  that returns an error, \<open>Build\<close> returns that error, wrapped, and has added one task,
  the drop-in; the sysconfig file is not added.
\<close>

theorem dropIn_only_on_Flatcar_ContainerOS_counterexample:
  "\<not> skipInstall (builderOf (Some (versionConfig ''1.2.10'')) DistributionFlatcar ArchitectureAmd64)
   \<and> fst (Build failingExternals
        (builderOf (Some (versionConfig ''1.2.10'')) DistributionFlatcar ArchitectureAmd64)
        emptyState)
       = Some (ErrorfWrap ''error building containerd flags: %v'' (Errorf ''unhandled flag''))
   \<and> Tasks (snd (Build failingExternals
        (builderOf (Some (versionConfig ''1.2.10'')) DistributionFlatcar ArchitectureAmd64)
        emptyState)) = [FileTask dropInFile]"
  by (simp add: Build_def skipInstall_def builderOf_def versionConfig_def
        failingExternals_def sampleExternals_def buildContainerOSConfigurationDropIn_def
        buildSysconfig_def containerdConfig_def emptyState_def)

text \<open>
  C3, amended. When the distribution is Flatcar or ContainerOS, the install is not skipped
  and the flag builder returns flags and no error, \<open>Build\<close> returns success and adds
  exactly two tasks: the file task of the systemd drop-in
  /etc/systemd/system/containerd.service.d/10-kops.conf and the file task of
  /etc/sysconfig/containerd; so it adds no package, archive, licence, configuration or
  service task.
\<close>

theorem dropIn_only_on_Flatcar_ContainerOS:
  assumes "\<not> skipInstall b"
    and "Distribution b = DistributionFlatcar \<or> Distribution b = DistributionContainerOS"
    and "BuildFlags X (containerdConfig b) = Inr flagsString"
  shows "fst (Build X b c) = None
         \<and> Tasks (snd (Build X b c))
             = Tasks c @ [FileTask dropInFile, FileTask (sysconfigFile flagsString)]
         \<and> Path dropInFile = ''/etc/systemd/system/containerd.service.d/10-kops.conf''
         \<and> Path (sysconfigFile flagsString) = ''/etc/sysconfig/containerd''"
  using Build_dropIn_path [OF assms]
  by (simp add: dropInFile_def sysconfigFile_def Let_def)

theorem dropIn_only_on_Flatcar_ContainerOS_witness:
  "\<not> skipInstall (builderOf (Some (versionConfig ''1.2.10'')) DistributionFlatcar ArchitectureAmd64)
   \<and> BuildFlags sampleExternals
        (containerdConfig (builderOf (Some (versionConfig ''1.2.10'')) DistributionFlatcar
           ArchitectureAmd64)) = Inr []
   \<and> fst (Build sampleExternals
        (builderOf (Some (versionConfig ''1.2.10'')) DistributionFlatcar ArchitectureAmd64)
        emptyState) = None
   \<and> Tasks (snd (Build sampleExternals
        (builderOf (Some (versionConfig ''1.2.10'')) DistributionFlatcar ArchitectureAmd64)
        emptyState)) = [FileTask dropInFile, FileTask (sysconfigFile [])]"
  using dropIn_only_on_Flatcar_ContainerOS
    [where b = "builderOf (Some (versionConfig ''1.2.10'')) DistributionFlatcar ArchitectureAmd64"
       and X = sampleExternals and flagsString = "[]" and c = emptyState]
  by (simp add: skipInstall_def builderOf_def versionConfig_def sampleExternals_def
        emptyState_def)




subsection \<open>Skipping the install\<close>

text \<open>
  C9. When the containerd section is present and its \<open>SkipInstall\<close> flag is true,
  \<open>Build\<close> returns success at once and the tasks of the context are unchanged. When
  the section is absent, the install is not skipped.
\<close>

theorem skipInstall_no_task:
  "(Containerd (Spec b) = Some d \<and> SkipInstall d \<longrightarrow>
      skipInstall b \<and> fst (Build X b c) = None \<and> Tasks (snd (Build X b c)) = Tasks c)
   \<and> (Containerd (Spec b) = None \<longrightarrow> \<not> skipInstall b)"
  by (auto simp: skipInstall_def Build_def)

theorem skipInstall_no_task_witness:
  "Containerd (Spec (builderOf (Some skipConfig) DistributionDebian9 ArchitectureAmd64))
     = Some skipConfig
   \<and> SkipInstall skipConfig
   \<and> fst (Build sampleExternals (builderOf (Some skipConfig) DistributionDebian9 ArchitectureAmd64)
        (AddTask (FileTask dropInFile) emptyState)) = None
   \<and> Tasks (snd (Build sampleExternals
        (builderOf (Some skipConfig) DistributionDebian9 ArchitectureAmd64)
        (AddTask (FileTask dropInFile) emptyState))) = [FileTask dropInFile]
   \<and> Containerd (Spec (builderOf None DistributionDebian9 ArchitectureAmd64)) = None
   \<and> \<not> skipInstall (builderOf None DistributionDebian9 ArchitectureAmd64)"
  using skipInstall_no_task
    [where b = "builderOf (Some skipConfig) DistributionDebian9 ArchitectureAmd64"
       and d = skipConfig and X = sampleExternals
       and c = "AddTask (FileTask dropInFile) emptyState"]
    skipInstall_no_task
    [where b = "builderOf None DistributionDebian9 ArchitectureAmd64"
       and d = skipConfig and X = sampleExternals and c = emptyState]
  by (simp add: builderOf_def skipConfig_def emptyState_def)

subsection \<open>A missing version\<close>

text \<open>
  C4, as stated, fails: with no containerd version specified, \<open>Build\<close> returns
  success on Flatcar (the section is absent), and it returns success when the section only
  sets \<open>SkipInstall\<close>.
\<close>

theorem missing_version_error_counterexample:
  "Containerd (Spec (builderOf None DistributionFlatcar ArchitectureAmd64)) = None
   \<and> fst (Build sampleExternals (builderOf None DistributionFlatcar ArchitectureAmd64)
        emptyState) = None
   \<and> Version_opt skipConfig = None
   \<and> fst (Build sampleExternals (builderOf (Some skipConfig) DistributionDebian9 ArchitectureAmd64)
        emptyState) = None"
  by (simp add: Build_def skipInstall_def builderOf_def skipConfig_def sampleExternals_def
        buildContainerOSConfigurationDropIn_def buildSysconfig_def containerdConfig_def)

text \<open>
  C4, amended. When no containerd version is specified (the section is absent, or its
  version is absent or empty), the install is not skipped and the distribution is neither
  Flatcar nor ContainerOS, \<open>Build\<close> returns the error "error finding containerd
  version". By then it has added the licence file and the configuration file to the
  context and nothing else, and it has written nothing to the log; \<open>Build\<close> only adds
  tasks, it runs none.
\<close>

theorem missing_version_error:
  assumes "\<not> skipInstall b"
    and "Distribution b \<noteq> DistributionFlatcar"
    and "Distribution b \<noteq> DistributionContainerOS"
    and "Containerd (Spec b) = None
         \<or> (\<exists>d. Containerd (Spec b) = Some d
                \<and> (Version_opt d = None \<or> Version_opt d = Some []))"
  shows "fst (Build X b c) = Some (Errorf ''error finding containerd version'')
         \<and> Tasks (snd (Build X b c))
             = Tasks c @ [FileTask (licenseFile X), FileTask (configFile b)]
         \<and> klog (snd (Build X b c)) = klog c"
proof -
  have "containerdVersion b = Inl (Errorf ''error finding containerd version'')"
    using assms(4) by (rule containerdVersion_missing)
  then show ?thesis
    using assms(1-3) by (simp add: Build_def)
qed

theorem missing_version_error_witness:
  "\<not> skipInstall (builderOf None DistributionDebian9 ArchitectureAmd64)
   \<and> Containerd (Spec (builderOf None DistributionDebian9 ArchitectureAmd64)) = None
   \<and> fst (Build sampleExternals (builderOf None DistributionDebian9 ArchitectureAmd64) emptyState)
       = Some (Errorf ''error finding containerd version'')
   \<and> Tasks (snd (Build sampleExternals (builderOf None DistributionDebian9 ArchitectureAmd64)
        emptyState))
       = [FileTask (licenseFile sampleExternals),
          FileTask (configFile (builderOf None DistributionDebian9 ArchitectureAmd64))]"
  using missing_version_error
    [where b = "builderOf None DistributionDebian9 ArchitectureAmd64"
       and X = sampleExternals and c = emptyState]
  by (simp add: skipInstall_def builderOf_def emptyState_def)

subsection \<open>No matching record\<close>

text \<open>
  C5, as stated, fails: on Flatcar with the requested version 9.9.9 no record of the
  catalog matches, yet \<open>Build\<close> writes no warning and adds no service task; it logs
  that Flatcar was detected and adds the drop-in and the sysconfig file.
\<close>

theorem no_match_warning_counterexample:
  "select containerdVersions DistributionFlatcar ArchitectureAmd64 ''9.9.9'' = []
   \<and> klog (snd (Build sampleExternals
        (builderOf (Some (versionConfig ''9.9.9'')) DistributionFlatcar ArchitectureAmd64)
        emptyState)) = [Infof ''Detected Flatcar; won't install containerd'']
   \<and> Tasks (snd (Build sampleExternals
        (builderOf (Some (versionConfig ''9.9.9'')) DistributionFlatcar ArchitectureAmd64)
        emptyState)) = [FileTask dropInFile, FileTask (sysconfigFile [])]"
proof -
  have "select containerdVersions DistributionFlatcar ArchitectureAmd64 ''9.9.9'' = []"
    by (simp add: select_def containerdVersions_def matches_def packageVersion_zero_def)
  moreover have
    "Build sampleExternals
       (builderOf (Some (versionConfig ''9.9.9'')) DistributionFlatcar ArchitectureAmd64)
       emptyState
     = (None, AddTask (FileTask (sysconfigFile []))
                (AddTask (FileTask dropInFile)
                   (klogWrite (Infof ''Detected Flatcar; won't install containerd'')
                      emptyState)))"
    by (simp add: Build_def skipInstall_def builderOf_def versionConfig_def
          sampleExternals_def buildContainerOSConfigurationDropIn_def buildSysconfig_def
          containerdConfig_def)
  ultimately show ?thesis
    by (simp add: emptyState_def)
qed

text \<open>
  C5, amended. When \<open>Build\<close> reaches the scan (the install is not skipped, the
  distribution is neither Flatcar nor ContainerOS, a version is requested) and no record of
  the catalog matches the distribution, the architecture and the requested version, the
  selection is empty, \<open>Build\<close> writes the warning and goes on: besides the licence and
  the configuration file it adds the service task and the sysconfig file (and the kubenet
  template when kubenet is used with containerd), no package or archive task, and it
  returns success. (The flag builder is taken to return flags.)
\<close>

theorem no_match_warning:
  assumes "\<not> skipInstall b"
    and "Distribution b \<noteq> DistributionFlatcar"
    and "Distribution b \<noteq> DistributionContainerOS"
    and "containerdVersion b = Inr v"
    and "\<forall>r \<in> set containerdVersions. \<not> matches r (Architecture b) v (Distribution b)"
    and "BuildFlags X (containerdConfig b) = Inr flagsString"
  shows "select containerdVersions (Distribution b) (Architecture b) v = []
         \<and> fst (Build X b c) = None
         \<and> Warningf ''Did not find containerd package for %s %s %s''
              (Distribution b) (Architecture b) v \<in> set (klog (snd (Build X b c)))
         \<and> Tasks (snd (Build X b c))
             = Tasks c
               @ [FileTask (licenseFile X), FileTask (configFile b),
                  ServiceTask (InitDefaults X
                    \<lparr>sv_Name = ''containerd.service'',
                     Definition = Some (Render X serviceManifest)\<rparr>),
                  FileTask (sysconfigFile flagsString)]
               @ (if ContainerRuntime (Spec b) = ''containerd''
                     \<and> UsesKubenet X (Networking (Spec b))
                  then [FileTask kubenetCNIConfigTemplate] else [])"
proof -
  have sel: "select containerdVersions (Distribution b) (Architecture b) v = []"
    using assms(5) by (simp add: select_def filter_empty_conv)
  note path = Build_install_path [OF assms(1-4) assms(6)]
  have "Warningf ''Did not find containerd package for %s %s %s''
          (Distribution b) (Architecture b) v \<in> set (klog (snd (Build X b c)))"
    using sel by (rule path(3))
  moreover have "Tasks (snd (Build X b c))
             = Tasks c
               @ [FileTask (licenseFile X), FileTask (configFile b),
                  ServiceTask (InitDefaults X
                    \<lparr>sv_Name = ''containerd.service'',
                     Definition = Some (Render X serviceManifest)\<rparr>),
                  FileTask (sysconfigFile flagsString)]
               @ (if ContainerRuntime (Spec b) = ''containerd''
                     \<and> UsesKubenet X (Networking (Spec b))
                  then [FileTask kubenetCNIConfigTemplate] else [])"
    using path(2) [of c] sel by simp
  ultimately show ?thesis
    using sel path(1) by simp
qed

theorem no_match_warning_witness:
  "\<not> skipInstall (builderOf (Some (versionConfig ''9.9.9'')) DistributionDebian9 ArchitectureAmd64)
   \<and> containerdVersion (builderOf (Some (versionConfig ''9.9.9'')) DistributionDebian9
        ArchitectureAmd64) = Inr ''9.9.9''
   \<and> select containerdVersions DistributionDebian9 ArchitectureAmd64 ''9.9.9'' = []
   \<and> fst (Build sampleExternals
        (builderOf (Some (versionConfig ''9.9.9'')) DistributionDebian9 ArchitectureAmd64)
        emptyState) = None
   \<and> Warningf ''Did not find containerd package for %s %s %s'' DistributionDebian9
        ArchitectureAmd64 ''9.9.9''
       \<in> set (klog (snd (Build sampleExternals
            (builderOf (Some (versionConfig ''9.9.9'')) DistributionDebian9 ArchitectureAmd64)
            emptyState)))"
  using no_match_warning
    [where b = "builderOf (Some (versionConfig ''9.9.9'')) DistributionDebian9 ArchitectureAmd64"
       and X = sampleExternals and v = "''9.9.9''" and flagsString = "[]" and c = emptyState]
  by (simp add: skipInstall_def containerdVersion_def StringValue_def builderOf_def
        versionConfig_def sampleExternals_def containerdConfig_def
        containerdVersions_def packageVersion_zero_def matches_def select_def)

subsection \<open>Managed packages\<close>

text \<open>
  C7, as stated, fails: for a managed-package record with one extra package, the loop body
  adds a single package task to the context, the primary one; the package built for the
  extra entry is not added as a task, it is carried in the \<open>Deps\<close> of the primary
  task.
\<close>

theorem managed_package_tasks_counterexample:
  "\<not> PlainBinary sampleRecord
   \<and> ExtraPackages sampleRecord = [sampleExtra]
   \<and> PackageTask (extraPkg sampleExtra) \<notin> set (Tasks (addRecord sampleRecord emptyState))
   \<and> filter isPackageTask (Tasks (addRecord sampleRecord emptyState))
       = [PackageTask (Package ''containerd.io'' (Some ''1.2.10'')
            (Some ''https://example.org/containerd.io.rpm'') (Some ''4567'')
            [extraPkg sampleExtra] (Some True))]"
  by (simp add: Tasks_addRecord recordTasks_def packageTask_def sampleRecord_def
        sampleExtra_def packageVersion_zero_def extraPkg_def emptyState_def)

text \<open>
  C7, amended. For every selected managed-package record (one that is not a plain binary),
  the builder builds one package per entry of \<open>ExtraPackages\<close> and attaches them to the
  primary package task as its \<open>Deps\<close>; the primary package task is the task it adds to
  the context for them. Each file of \<open>MarkImmutable\<close> becomes a \<open>Chattr\<close> task with
  mode "+i" that is added to the context and depends on the primary package task. (After
  these come the bare packages of \<open>Dependencies\<close>.) The tasks of a selected record are
  among the tasks of the scan.
\<close>

theorem managed_package_tasks:
  assumes "\<not> PlainBinary dv"
    and "dv \<in> set (select cat distro arch v)"
  shows "Tasks (addRecord dv c)
           = Tasks c
             @ [PackageTask (Package (Name dv) (Some (Version dv)) (Some (Source dv))
                  (Some (Hash dv)) (map extraPkg (ExtraPackages dv)) (Some True))]
             @ map (\<lambda>f. ChattrTask f ''+i''
                  [PackageTask (Package (Name dv) (Some (Version dv)) (Some (Source dv))
                     (Some (Hash dv)) (map extraPkg (ExtraPackages dv)) (Some True))])
                 (MarkImmutable dv)
             @ map (\<lambda>dep. PackageTask (Package dep None None None [] None)) (Dependencies dv)
         \<and> map pkg_Name (map extraPkg (ExtraPackages dv)) = map fst (ExtraPackages dv)
         \<and> set (recordTasks dv) \<subseteq> set (Tasks (snd (addPackages cat arch v distro (n, c))))"
proof -
  have primary: "packageTask dv
      = PackageTask (Package (Name dv) (Some (Version dv)) (Some (Source dv))
          (Some (Hash dv)) (map extraPkg (ExtraPackages dv)) (Some True))"
    using assms(1) by (simp add: packageTask_def)
  have tasks: "Tasks (addRecord dv c) = Tasks c @ recordTasks dv"
    by (rule Tasks_addRecord)
  have names: "map pkg_Name (map extraPkg (ExtraPackages dv)) = map fst (ExtraPackages dv)"
    by (induction "ExtraPackages dv") (auto simp: extraPkg_def split: prod.splits)
  have scan: "set (recordTasks dv) \<subseteq> set (Tasks (snd (addPackages cat arch v distro (n, c))))"
    using assms(2) by (auto simp: Tasks_addPackages)
  show ?thesis
    using tasks names scan by (simp add: recordTasks_def primary [symmetric])
qed

theorem managed_package_tasks_witness:
  "\<not> PlainBinary sampleRecord
   \<and> sampleRecord \<in> set (select [sampleRecord, sampleGeneric] DistributionCentos7
        ArchitectureAmd64 ''1.2.10'')
   \<and> Tasks (addRecord sampleRecord emptyState)
       = [PackageTask (Package ''containerd.io'' (Some ''1.2.10'')
            (Some ''https://example.org/containerd.io.rpm'') (Some ''4567'')
            [Package ''container-selinux'' (Some ''2.68'')
               (Some ''https://example.org/container-selinux.rpm'') (Some ''0123'') []
               (Some True)]
            (Some True)),
          ChattrTask ''/usr/bin/runc'' ''+i''
            [PackageTask (Package ''containerd.io'' (Some ''1.2.10'')
               (Some ''https://example.org/containerd.io.rpm'') (Some ''4567'')
               [Package ''container-selinux'' (Some ''2.68'')
                  (Some ''https://example.org/container-selinux.rpm'') (Some ''0123'') []
                  (Some True)]
               (Some True))]]"
  using managed_package_tasks
    [where dv = sampleRecord and cat = "[sampleRecord, sampleGeneric]"
       and distro = DistributionCentos7 and arch = ArchitectureAmd64 and v = "''1.2.10''"
       and c = emptyState and n = 0]
  by (simp add: sampleRecord_def sampleGeneric_def sampleExtra_def packageVersion_zero_def
        extraPkg_def emptyState_def select_def matches_def)

subsection \<open>The on-change commands of the drop-in\<close>

text \<open>
  C8. Applying the drop-in file task, which carries the on-change commands (among them
  systemctl daemon-reload): when the content on the node is the rendered content, no
  command runs and the node is unchanged; when it differs (or the file is not there), the
  file gets the rendered content and the on-change commands run, in the order given.
\<close>

theorem dropIn_onChange_commands:
  "(files n (Path dropInFile) = Some (Contents dropInFile) \<longrightarrow>
      applyFile dropInFile n = n \<and> executed (applyFile dropInFile n) = executed n)
   \<and> (files n (Path dropInFile) \<noteq> Some (Contents dropInFile) \<longrightarrow>
      executed (applyFile dropInFile n)
        = executed n @ [[''systemctl'', ''daemon-reload''],
                        [''systemctl'', ''restart'', ''containerd.service''],
                        [''systemctl'', ''restart'', ''kops-configuration.service'', ''&'']]
      \<and> files (applyFile dropInFile n) (Path dropInFile) = Some (Contents dropInFile))
   \<and> [''systemctl'', ''daemon-reload''] \<in> set (OnChangeExecute dropInFile)"
proof -
  have cmds: "OnChangeExecute dropInFile =
      [[''systemctl'', ''daemon-reload''],
       [''systemctl'', ''restart'', ''containerd.service''],
       [''systemctl'', ''restart'', ''kops-configuration.service'', ''&'']]"
    by (simp add: dropInFile_def Let_def)
  show ?thesis
    unfolding applyFile_def cmds by simp
qed

theorem dropIn_onChange_commands_witness:
  "files (sampleNode (Some (Contents dropInFile))) (Path dropInFile) = Some (Contents dropInFile)
   \<and> executed (applyFile dropInFile (sampleNode (Some (Contents dropInFile)))) = []
   \<and> files (sampleNode (Some ''[Service]'')) (Path dropInFile) \<noteq> Some (Contents dropInFile)
   \<and> executed (applyFile dropInFile (sampleNode (Some ''[Service]'')))
       = [[''systemctl'', ''daemon-reload''],
          [''systemctl'', ''restart'', ''containerd.service''],
          [''systemctl'', ''restart'', ''kops-configuration.service'', ''&'']]"
  using dropIn_onChange_commands [of "sampleNode (Some (Contents dropInFile))"]
    dropIn_onChange_commands [of "sampleNode (Some ''[Service]'')"]
  by (simp add: sampleNode_def dropInFile_def Let_def newline_def)

end
